theory Spec2Isabelle
  imports Complex_Main
begin

section \<open>JavaScript values\<close>

text \<open>
  A Number is NaN, one of the two infinities, or a finite value, kept as the rational it
  denotes. The two zeros are one value here: the program only tests a zero for truthiness
  and renders it as text, and neither tells them apart.
\<close>

datatype jsnum = NaN | PosInfinity | NegInfinity | Fin rat

text \<open>
  The values a field of a raw data record holds: \<open>undefined\<close>, \<open>null\<close>, booleans,
  numbers and strings, which is what the form and the clone handler put there. Objects,
  symbols and big integers as field values are not modelled. A string is the UTF-8 text
  of the JavaScript string.
\<close>

datatype jsval = Undefined | Null | Bool bool | Num jsnum | Str string

text \<open>An object literal: its own properties, in insertion order.\<close>

type_synonym jsobject = "(string \<times> jsval) list"

text \<open>Reading a property (also by destructuring): a missing one is \<open>undefined\<close>.\<close>

definition get_prop :: "jsobject \<Rightarrow> string \<Rightarrow> jsval" where
  "get_prop obj k = (case map_of obj k of None \<Rightarrow> Undefined | Some v \<Rightarrow> v)"

text \<open>Writing a property keeps the position of a key that is already there.\<close>

fun set_prop :: "jsobject \<Rightarrow> string \<Rightarrow> jsval \<Rightarrow> jsobject" where
  "set_prop [] k v = [(k, v)]"
| "set_prop ((k', v') # obj) k v =
     (if k' = k then (k, v) # obj else (k', v') # set_prop obj k v)"

text \<open>\<open>Object.assign(target, source)\<close>: every property of the source, in order.\<close>

definition object_assign :: "jsobject \<Rightarrow> jsobject \<Rightarrow> jsobject" where
  "object_assign target source = foldl (\<lambda>obj (k, v). set_prop obj k v) target source"

text \<open>ToBoolean, and the operator \<open>a || b\<close>.\<close>

fun truthy :: "jsval \<Rightarrow> bool" where
  "truthy Undefined = False"
| "truthy Null = False"
| "truthy (Bool b) = b"
| "truthy (Num NaN) = False"
| "truthy (Num (Fin x)) = (x \<noteq> 0)"
| "truthy (Num _) = True"
| "truthy (Str s) = (s \<noteq> [])"

definition js_or :: "jsval \<Rightarrow> jsval \<Rightarrow> jsval" where
  "js_or a b = (if truthy a then a else b)"

section \<open>Numbers and text\<close>

subsection \<open>Rounding to a double\<close>

text \<open>The number of digits of \<open>n\<close> in base \<open>b\<close> (one digit below \<open>b\<close>).\<close>

function ndigits :: "int \<Rightarrow> int \<Rightarrow> int" where
  "ndigits b n = (if b < 2 \<or> n < b then 1 else 1 + ndigits b (n div b))"
  by pat_completeness auto
termination
  by (relation "measure (\<lambda>(b, n). nat n)") (auto intro: int_div_less_self)

declare ndigits.simps [simp del]

definition bpow :: "int \<Rightarrow> int \<Rightarrow> rat" where
  "bpow b e = (if 0 \<le> e then of_int (b ^ nat e) else 1 / of_int (b ^ nat (- e)))"

text \<open>
  \<open>floor_log b x\<close> is the integer \<open>e\<close> with \<open>b ^ e \<le> x < b ^ (e + 1)\<close>, for \<open>x > 0\<close>
  and \<open>b\<close> either 2 or 10: the digit counts of numerator and denominator give it up to
  one, and a comparison decides.
\<close>

definition floor_log :: "int \<Rightarrow> rat \<Rightarrow> int" where
  "floor_log b x =
     (let (p, q) = quotient_of x;
          e0 = ndigits b p - ndigits b q
      in if bpow b e0 \<le> x then e0 else e0 - 1)"

definition round_half_even :: "rat \<Rightarrow> int" where
  "round_half_even r =
     (let f = \<lfloor>r\<rfloor>; d = r - of_int f
      in if d < 1 / 2 then f else if 1 / 2 < d then f + 1
         else if even f then f else f + 1)"

text \<open>
  The double nearest to a positive rational, ties to even: 53 significant bits
  (\<open>n\<close> counts units of \<open>2 ^ (e - 52)\<close>), the exponent not below that of the
  subnormals, and overflow (\<open>None\<close>) when the rounded value reaches \<open>2 ^ 1024\<close>.
\<close>

definition round_pos :: "rat \<Rightarrow> rat option" where
  "round_pos a =
     (let e = max (floor_log 2 a) (- 1022);
          q = bpow 2 (e - 52);
          n = round_half_even (a / q)
      in if 1023 < e \<or> (e = 1023 \<and> n = 2 ^ 53) then None else Some (of_int n * q))"

definition round_double :: "rat \<Rightarrow> jsnum" where
  "round_double x =
     (if x = 0 then Fin 0
      else if 0 < x then (case round_pos x of None \<Rightarrow> PosInfinity | Some r \<Rightarrow> Fin r)
      else (case round_pos (- x) of None \<Rightarrow> NegInfinity | Some r \<Rightarrow> Fin (- r)))"

subsection \<open>Decimal digits\<close>

definition digit_char :: "int \<Rightarrow> char" where
  "digit_char d = ''0123456789'' ! nat d"

function digits :: "int \<Rightarrow> string" where
  "digits n = (if n < 10 then [digit_char n] else digits (n div 10) @ [digit_char (n mod 10)])"
  by pat_completeness auto
termination
  by (relation "measure nat") (auto intro: int_div_less_self)

declare digits.simps [simp del]

text \<open>An integer Number below \<open>10 ^ 21\<close> in magnitude is rendered as its digits.\<close>

definition int_to_string :: "int \<Rightarrow> string" where
  "int_to_string n = (if n < 0 then CHR ''-'' # digits (- n) else digits n)"

subsection \<open>Number to text\<close>

text \<open>
  \<open>Number::toString\<close> writes a positive double \<open>x\<close> with the fewest digits \<open>s\<close>
  (\<open>k\<close> of them) such that \<open>s * 10 ^ (n - k)\<close> rounds back to \<open>x\<close>. With \<open>k\<close> digits
  only the two neighbours of \<open>x\<close> can do so; the nearer one is tried first, the even one
  on a tie. A candidate is the pair \<open>(s, n)\<close>.
\<close>

definition candidates :: "int \<Rightarrow> rat \<Rightarrow> (int \<times> int) list" where
  "candidates k x =
     (let n0 = floor_log 10 x + 1;
          scaled = x / bpow 10 (n0 - k);
          lo = \<lfloor>scaled\<rfloor>;
          hi = lo + 1;
          norm = (\<lambda>s. if of_int s = bpow 10 k then (10 ^ nat (k - 1), n0 + 1) else (s, n0));
          dlo = scaled - of_int lo;
          dhi = of_int hi - scaled
      in if dlo < dhi \<or> (dlo = dhi \<and> even lo) then [norm lo, norm hi]
         else [norm hi, norm lo])"

definition reads_back :: "int \<Rightarrow> rat \<Rightarrow> int \<times> int \<Rightarrow> bool" where
  "reads_back k x c = (round_double (of_int (fst c) * bpow 10 (snd c - k)) = Fin x)"

text \<open>
  Seventeen digits always suffice for a double, so the search over \<open>k\<close> ends there with
  the nearest candidate.
\<close>

fun shortest_from :: "nat \<Rightarrow> int \<Rightarrow> rat \<Rightarrow> int \<times> int \<times> int" where
  "shortest_from 0 k x = (let c = hd (candidates k x) in (fst c, k, snd c))"
| "shortest_from (Suc fuel) k x =
     (case filter (reads_back k x) (candidates k x) of
        c # _ \<Rightarrow> (fst c, k, snd c)
      | [] \<Rightarrow> shortest_from fuel (k + 1) x)"

definition shortest_digits :: "rat \<Rightarrow> int \<times> int \<times> int" where
  "shortest_digits x = shortest_from 16 1 x"

definition pos_to_string :: "rat \<Rightarrow> string" where
  "pos_to_string x =
     (let (s, k, n) = shortest_digits x;
          ds = digits s;
          e = n - 1;
          ex = CHR ''e'' # (if e < 0 then CHR ''-'' else CHR ''+'') # digits \<bar>e\<bar>
      in if k \<le> n \<and> n \<le> 21 then ds @ replicate (nat (n - k)) CHR ''0''
         else if 0 < n \<and> n \<le> 21 then take (nat n) ds @ ''.'' @ drop (nat n) ds
         else if - 6 < n \<and> n \<le> 0 then ''0.'' @ replicate (nat (- n)) CHR ''0'' @ ds
         else if k = 1 then ds @ ex
         else take 1 ds @ ''.'' @ drop 1 ds @ ex)"

fun number_to_string :: "jsnum \<Rightarrow> string" where
  "number_to_string NaN = ''NaN''"
| "number_to_string PosInfinity = ''Infinity''"
| "number_to_string NegInfinity = ''-Infinity''"
| "number_to_string (Fin x) =
     (if x = 0 then ''0''
      else if x < 0 then CHR ''-'' # pos_to_string (- x)
      else pos_to_string x)"

text \<open>ToString, as a template literal and string concatenation apply it.\<close>

fun to_string :: "jsval \<Rightarrow> string" where
  "to_string Undefined = ''undefined''"
| "to_string Null = ''null''"
| "to_string (Bool b) = (if b then ''true'' else ''false'')"
| "to_string (Num n) = number_to_string n"
| "to_string (Str s) = s"

text \<open>
  \<open>Number.prototype.toFixed(f)\<close>: the nearest multiple of \<open>10 ^ - f\<close>, the larger one
  on a tie, with exactly \<open>f\<close> digits after the point; a magnitude of \<open>10 ^ 21\<close> or more
  is written as \<open>Number::toString\<close> writes it.
\<close>

definition toFixed :: "nat \<Rightarrow> jsnum \<Rightarrow> string" where
  "toFixed f v =
     (case v of
        Fin x \<Rightarrow>
          (let sgn = (if x < 0 then ''-'' else []);
               a = \<bar>x\<bar>
           in if 10 ^ 21 \<le> a then sgn @ pos_to_string a
              else
                (let n = \<lfloor>a * 10 ^ f + 1 / 2\<rfloor>;
                     m = (if n = 0 then ''0'' else digits n);
                     m' = (if length m \<le> f then replicate (f + 1 - length m) CHR ''0'' @ m else m);
                     k = length m'
                 in if f = 0 then sgn @ m
                    else sgn @ take (k - f) m' @ ''.'' @ drop (k - f) m'))
      | _ \<Rightarrow> number_to_string v)"

subsection \<open>Text to number: \<open>parseFloat\<close>\<close>

definition is_digit :: "char \<Rightarrow> bool" where
  "is_digit c = (c \<in> set ''0123456789'')"

definition digit_val :: "char \<Rightarrow> int" where
  "digit_val c = of_char c - 48"

definition digits_value :: "string \<Rightarrow> int" where
  "digits_value ds = foldl (\<lambda>a c. 10 * a + digit_val c) 0 ds"

text \<open>
  The length in bytes of a leading WhiteSpace or LineTerminator code point: TAB, LF, VT,
  FF, CR, SP; U+00A0; U+1680, U+2000 to U+200A, U+2028, U+2029, U+202F, U+205F, U+3000
  and U+FEFF.
\<close>

definition ws_prefix :: "string \<Rightarrow> nat" where
  "ws_prefix s =
     (if s = [] then 0
      else if hd s \<in> set [CHR 0x09, CHR 0x0A, CHR 0x0B, CHR 0x0C, CHR 0x0D, CHR 0x20] then 1
      else if take 2 s = [CHR 0xC2, CHR 0xA0] then 2
      else if length s < 3 then 0
      else if take 3 s \<in> set
          ([[CHR 0xE1, CHR 0x9A, CHR 0x80], [CHR 0xE2, CHR 0x80, CHR 0xA8],
            [CHR 0xE2, CHR 0x80, CHR 0xA9], [CHR 0xE2, CHR 0x80, CHR 0xAF],
            [CHR 0xE2, CHR 0x81, CHR 0x9F], [CHR 0xE3, CHR 0x80, CHR 0x80],
            [CHR 0xEF, CHR 0xBB, CHR 0xBF]]
           @ map (\<lambda>c. [CHR 0xE2, CHR 0x80, c])
               [CHR 0x80, CHR 0x81, CHR 0x82, CHR 0x83, CHR 0x84, CHR 0x85, CHR 0x86,
                CHR 0x87, CHR 0x88, CHR 0x89, CHR 0x8A])
      then 3 else 0)"

function trim_start :: "string \<Rightarrow> string" where
  "trim_start s = (if ws_prefix s = 0 then s else trim_start (drop (ws_prefix s) s))"
  by pat_completeness auto
termination
  by (relation "measure length") (auto simp: ws_prefix_def split: if_splits)

declare trim_start.simps [simp del]

text \<open>
  The ExponentPart at the head of the text, if there is a complete one: \<open>e\<close> or \<open>E\<close>,
  an optional sign and at least one digit. Without one the exponent is 0.
\<close>

definition parse_exponent :: "string \<Rightarrow> int" where
  "parse_exponent r =
     (if r = [] \<or> hd r \<notin> set ''eE'' then 0
      else
        (let r1 = tl r;
             signed = (r1 \<noteq> [] \<and> hd r1 \<in> set ''+-'');
             ds = takeWhile is_digit (if signed then tl r1 else r1)
         in if ds = [] then 0
            else if signed \<and> hd r1 = CHR ''-'' then - digits_value ds
            else digits_value ds))"

text \<open>
  The value of the longest prefix that is an unsigned decimal literal (digits, an
  optional point and more digits, an optional exponent; at least one digit before the
  exponent), or \<open>None\<close> when no prefix is one.
\<close>

definition parse_decimal :: "string \<Rightarrow> rat option" where
  "parse_decimal s =
     (let ip = takeWhile is_digit s;
          r1 = dropWhile is_digit s;
          has_dot = (r1 \<noteq> [] \<and> hd r1 = CHR ''.'');
          fp = (if has_dot then takeWhile is_digit (tl r1) else []);
          r2 = (if has_dot then dropWhile is_digit (tl r1) else r1)
      in if ip = [] \<and> fp = [] then None
         else Some (of_int (digits_value (ip @ fp))
                    * bpow 10 (parse_exponent r2 - int (length fp))))"

definition parseFloat_str :: "string \<Rightarrow> jsnum" where
  "parseFloat_str s =
     (let t = trim_start s;
          neg = (t \<noteq> [] \<and> hd t = CHR ''-'');
          u = (if t \<noteq> [] \<and> hd t \<in> set ''+-'' then tl t else t)
      in if take 8 u = ''Infinity'' then (if neg then NegInfinity else PosInfinity)
         else (case parse_decimal u of
                 None \<Rightarrow> NaN
               | Some m \<Rightarrow> round_double (if neg then - m else m)))"

text \<open>
  \<open>parseFloat(v)\<close> parses the text of \<open>v\<close>. The text \<open>Number::toString\<close> gives a
  number reads back as that number (a negative zero as zero), so a Number is returned
  as it is.
\<close>

fun parseFloat :: "jsval \<Rightarrow> jsnum" where
  "parseFloat (Num n) = n"
| "parseFloat v = parseFloat_str (to_string v)"

section \<open>Product classes\<close>

text \<open>
  An instance of \<open>Product\<close> or of one of its three subclasses. The fields \<open>name\<close>,
  \<open>brand\<close>, \<open>warrantyYears\<close>, \<open>size\<close>, \<open>material\<close>, \<open>author\<close> and \<open>pages\<close>
  hold whatever value the constructor stored; \<open>price\<close> is always a Number and \<open>id\<close>
  always a string.
\<close>

datatype product =
    Product (name: jsval) (price: jsnum) (id_field: string)
  | ElectronicsProduct (name: jsval) (price: jsnum) (id_field: string)
      (brand: jsval) (warrantyYears: jsval)
  | ClothingProduct (name: jsval) (price: jsnum) (id_field: string)
      (size_field: jsval) (material: jsval)
  | BookProduct (name: jsval) (price: jsnum) (id_field: string)
      (author: jsval) (pages: jsval)

text \<open>\<open>parseFloat(price) || 0\<close>\<close>

definition price_or_zero :: "jsval \<Rightarrow> jsnum" where
  "price_or_zero v = (let n = parseFloat v in if truthy (Num n) then n else Fin 0)"

text \<open>
  The identifier \<open>p_${Date.now()}_${Math.floor(Math.random()*1000)}\<close>. The clock
  reading \<open>now\<close> (integer milliseconds) and the draw \<open>rnd\<close> (the floored product, an
  integer from 0 to 999) come from the environment, so every constructor takes them
  as arguments.
\<close>

definition new_id :: "int \<Rightarrow> int \<Rightarrow> string" where
  "new_id now rnd = ''p_'' @ int_to_string now @ ''_'' @ int_to_string rnd"

definition new_Product :: "int \<Rightarrow> int \<Rightarrow> jsobject \<Rightarrow> product" where
  "new_Product now rnd data =
     Product (get_prop data ''name'') (price_or_zero (get_prop data ''price''))
       (new_id now rnd)"

text \<open>\<open>super({ name, price })\<close>: the base constructor runs on a fresh two-field object.\<close>

definition super_fields :: "jsobject \<Rightarrow> jsobject" where
  "super_fields data = [(''name'', get_prop data ''name''), (''price'', get_prop data ''price'')]"

definition new_ElectronicsProduct :: "int \<Rightarrow> int \<Rightarrow> jsobject \<Rightarrow> product" where
  "new_ElectronicsProduct now rnd data =
     (let base = new_Product now rnd (super_fields data)
      in ElectronicsProduct (name base) (price base) (id_field base)
           (js_or (get_prop data ''brand'') (Str ''Unknown''))
           (js_or (get_prop data ''warrantyYears'') (Num (Fin 1))))"

definition new_ClothingProduct :: "int \<Rightarrow> int \<Rightarrow> jsobject \<Rightarrow> product" where
  "new_ClothingProduct now rnd data =
     (let base = new_Product now rnd (super_fields data)
      in ClothingProduct (name base) (price base) (id_field base)
           (js_or (get_prop data ''size'') (Str ''M''))
           (js_or (get_prop data ''material'') (Str ''Unknown'')))"

definition new_BookProduct :: "int \<Rightarrow> int \<Rightarrow> jsobject \<Rightarrow> product" where
  "new_BookProduct now rnd data =
     (let base = new_Product now rnd (super_fields data)
      in BookProduct (name base) (price base) (id_field base)
           (js_or (get_prop data ''author'') (Str ''Unknown''))
           (js_or (get_prop data ''pages'') (Num (Fin 0))))"

text \<open>The em dash and the rupee sign of the descriptions, as UTF-8.\<close>

definition em_dash :: string where
  "em_dash = [CHR 0xE2, CHR 0x80, CHR 0x94]"

definition rupee :: string where
  "rupee = [CHR 0xE2, CHR 0x82, CHR 0xB9]"

fun describe :: "product \<Rightarrow> string" where
  "describe (Product n p i) =
     to_string n @ '' '' @ em_dash @ '' '' @ rupee @ toFixed 2 p"
| "describe (ElectronicsProduct n p i b w) =
     to_string n @ '' ('' @ to_string b @ '') '' @ em_dash @ '' '' @ rupee @ toFixed 2 p
       @ '' '' @ em_dash @ '' '' @ to_string w @ ''yr warranty''"
| "describe (ClothingProduct n p i s m) =
     to_string n @ '' '' @ em_dash @ '' Size: '' @ to_string s @ '' '' @ em_dash @ '' ''
       @ to_string m @ '' '' @ em_dash @ '' '' @ rupee @ toFixed 2 p"
| "describe (BookProduct n p i a pg) =
     [CHR 0x22] @ to_string n @ [CHR 0x22] @ '' by '' @ to_string a @ '' '' @ em_dash @ '' ''
       @ to_string pg @ '' pages '' @ em_dash @ '' '' @ rupee @ toFixed 2 p"

fun meta :: "product \<Rightarrow> jsobject" where
  "meta (Product n p i) = []"
| "meta (ElectronicsProduct n p i b w) = [(''brand'', b), (''warrantyYears'', w)]"
| "meta (ClothingProduct n p i s m) = [(''size'', s), (''material'', m)]"
| "meta (BookProduct n p i a pg) = [(''author'', a), (''pages'', pg)]"

section \<open>Creators\<close>

text \<open>A thrown \<open>Error\<close> with its message.\<close>

datatype error = Error string

text \<open>The base creator and its three subclasses.\<close>

datatype creator = ProductCreator | ElectronicsCreator | ClothingCreator | BookCreator

fun factoryMethod :: "creator \<Rightarrow> int \<Rightarrow> int \<Rightarrow> jsobject \<Rightarrow> error + product" where
  "factoryMethod ProductCreator now rnd data =
     Inl (Error ''factoryMethod() must be implemented by subclasses'')"
| "factoryMethod ElectronicsCreator now rnd data = Inr (new_ElectronicsProduct now rnd data)"
| "factoryMethod ClothingCreator now rnd data = Inr (new_ClothingProduct now rnd data)"
| "factoryMethod BookCreator now rnd data = Inr (new_BookProduct now rnd data)"

definition creator_create :: "creator \<Rightarrow> int \<Rightarrow> int \<Rightarrow> jsobject \<Rightarrow> error + product" where
  "creator_create c now rnd data = factoryMethod c now rnd data"

section \<open>The registry\<close>

text \<open>
  A \<open>Map\<close> from type tags to creators, in insertion order: \<open>set\<close> replaces the value
  of a key that is present where it stands and appends a new key, \<open>delete\<close> removes it.
\<close>

type_synonym registry = "(string \<times> creator) list"

fun map_set :: "('k \<times> 'v) list \<Rightarrow> 'k \<Rightarrow> 'v \<Rightarrow> ('k \<times> 'v) list" where
  "map_set [] k v = [(k, v)]"
| "map_set ((k', v') # m) k v = (if k' = k then (k, v) # m else (k', v') # map_set m k v)"

definition map_get :: "('k \<times> 'v) list \<Rightarrow> 'k \<Rightarrow> 'v option" where
  "map_get m k = map_of m k"

definition map_delete :: "('k \<times> 'v) list \<Rightarrow> 'k \<Rightarrow> ('k \<times> 'v) list" where
  "map_delete m k = filter (\<lambda>e. fst e \<noteq> k) m"

definition map_keys :: "('k \<times> 'v) list \<Rightarrow> 'k list" where
  "map_keys m = map fst m"

text \<open>The registry as the module builds it before anything else runs.\<close>

definition initial_registry :: registry where
  "initial_registry =
     map_set (map_set (map_set [] ''electronics'' ElectronicsCreator)
       ''clothing'' ClothingCreator) ''book'' BookCreator"

definition unregistered_message :: "string \<Rightarrow> string" where
  "unregistered_message type = ''No creator registered for type '' @ [CHR 0x22] @ type @ [CHR 0x22]"

definition ProductFactory_create ::
  "registry \<Rightarrow> string \<Rightarrow> int \<Rightarrow> int \<Rightarrow> jsobject \<Rightarrow> error + product" where
  "ProductFactory_create reg type now rnd data =
     (case map_get reg type of
        None \<Rightarrow> Inl (Error (unregistered_message type))
      | Some c \<Rightarrow> creator_create c now rnd data)"

definition ProductFactory_register :: "registry \<Rightarrow> string \<Rightarrow> creator \<Rightarrow> registry" where
  "ProductFactory_register reg type creatorInstance = map_set reg type creatorInstance"

definition ProductFactory_unregister :: "registry \<Rightarrow> string \<Rightarrow> registry" where
  "ProductFactory_unregister reg type = map_delete reg type"

definition ProductFactory_availableTypes :: "registry \<Rightarrow> string list" where
  "ProductFactory_availableTypes reg = map_keys reg"

section \<open>The page\<close>

subsection \<open>\<open>String.prototype.trim\<close> and \<open>parseInt\<close>\<close>

text \<open>The length in bytes of a trailing WhiteSpace or LineTerminator code point.\<close>

definition ws_suffix :: "string \<Rightarrow> nat" where
  "ws_suffix s =
     (let n = length s
      in if 1 \<le> n \<and> ws_prefix (drop (n - 1) s) = 1 then 1
         else if 2 \<le> n \<and> ws_prefix (drop (n - 2) s) = 2 then 2
         else if 3 \<le> n \<and> ws_prefix (drop (n - 3) s) = 3 then 3
         else 0)"

function trim_end :: "string \<Rightarrow> string" where
  "trim_end s = (if ws_suffix s = 0 then s else trim_end (take (length s - ws_suffix s) s))"
  by pat_completeness auto
termination
  by (relation "measure length") (auto simp: ws_suffix_def Let_def split: if_splits)

declare trim_end.simps [simp del]

definition trim :: "string \<Rightarrow> string" where
  "trim s = trim_end (trim_start s)"

text \<open>
  \<open>parseInt(v, 10)\<close>: leading white space, an optional sign, then the longest run of
  decimal digits; \<open>NaN\<close> without a digit.
\<close>

definition parseInt_str :: "string \<Rightarrow> jsnum" where
  "parseInt_str s =
     (let t = trim_start s;
          neg = (t \<noteq> [] \<and> hd t = CHR ''-'');
          u = (if t \<noteq> [] \<and> hd t \<in> set ''+-'' then tl t else t);
          ds = takeWhile is_digit u
      in if ds = [] then NaN
         else round_double (of_int (if neg then - digits_value ds else digits_value ds)))"

definition parseInt :: "jsval \<Rightarrow> jsnum" where
  "parseInt v = parseInt_str (to_string v)"

subsection \<open>State\<close>

text \<open>
  What the handlers read and write: the registry of the factory, the array \<open>created\<close>,
  the items of the list \<open>productList\<close> (each with its \<open>dataset.id\<close> and its markup),
  the selected type, the two text inputs, the inputs inside \<open>typeFields\<close> (element id
  and value), and the messages shown by \<open>alert\<close>.
\<close>

record page =
  registry :: registry
  created :: "product list"
  productList :: "(string \<times> string) list"
  productType :: string
  nameInput :: string
  priceInput :: string
  typeFields :: "(string \<times> string) list"
  alerts :: "string list"

text \<open>\<open>(document.getElementById(i) || {}).value\<close>\<close>

definition element_value :: "page \<Rightarrow> string \<Rightarrow> jsval" where
  "element_value pg i = (case map_of (typeFields pg) i of None \<Rightarrow> Undefined | Some v \<Rightarrow> Str v)"

definition li_markup :: "product \<Rightarrow> string" where
  \<open>li_markup pr =
     ''<div>'' @ describe pr
       @ ''</div><div><button class="clone">Clone</button> <button class="remove">Remove</button></div>''\<close>

definition addProductToUI :: "page \<Rightarrow> product \<Rightarrow> page" where
  "addProductToUI pg pr =
     pg\<lparr>productList := productList pg @ [(id_field pr, li_markup pr)]\<rparr>"

subsection \<open>The create button\<close>

definition form_data :: "page \<Rightarrow> jsobject" where
  "form_data pg =
     (let type = productType pg;
          name = js_or (Str (trim (nameInput pg))) (Str ''Untitled'');
          price = price_or_zero (Str (priceInput pg));
          data = object_assign [] [(''name'', name), (''price'', Num price)]
      in if type = ''electronics'' then
           set_prop
             (set_prop data ''brand'' (js_or (element_value pg ''brand'') (Str ''Generic'')))
             ''warrantyYears''
             (Num (parseInt (js_or (element_value pg ''warranty'') (Num (Fin 1)))))
         else if type = ''clothing'' then
           set_prop
             (set_prop data ''size'' (js_or (element_value pg ''size'') (Str ''M'')))
             ''material'' (js_or (element_value pg ''material'') (Str ''Unknown''))
         else if type = ''book'' then
           set_prop
             (set_prop data ''author'' (js_or (element_value pg ''author'') (Str ''Unknown'')))
             ''pages''
             (Num (parseInt (js_or (element_value pg ''pages'') (Num (Fin 0)))))
         else data)"

text \<open>
  The click handler of the create button: a thrown error is caught and its message
  alerted; otherwise the product is stored and listed and the two inputs are cleared.
\<close>

definition createBtn_click :: "page \<Rightarrow> int \<Rightarrow> int \<Rightarrow> page" where
  "createBtn_click pg now rnd =
     (case ProductFactory_create (registry pg) (productType pg) now rnd (form_data pg) of
        Inr product \<Rightarrow>
          (addProductToUI (pg\<lparr>created := created pg @ [product]\<rparr>) product)
            \<lparr>nameInput := [], priceInput := []\<rparr>
      | Inl (Error msg) \<Rightarrow> pg\<lparr>alerts := alerts pg @ [msg]\<rparr>)"

subsection \<open>The clone button of an item\<close>

text \<open>The type tag the handler derives from the class of the product.\<close>

fun clone_type :: "product \<Rightarrow> string option" where
  "clone_type (ElectronicsProduct n p i b w) = Some ''electronics''"
| "clone_type (ClothingProduct n p i s m) = Some ''clothing''"
| "clone_type (BookProduct n p i a pg) = Some ''book''"
| "clone_type (Product n p i) = None"

definition cloneData :: "product \<Rightarrow> jsobject" where
  "cloneData pr =
     object_assign (object_assign [] (meta pr))
       [(''name'', Str (to_string (name pr) @ '' (clone)'')), (''price'', Num (price pr))]"

text \<open>
  The click handler of the clone button of the item rendered for \<open>pr\<close>. It has no \<open>try\<close>: an
  error thrown by the factory leaves the handler (\<open>Inl\<close>) before anything is stored.
\<close>

definition clone_click :: "page \<Rightarrow> product \<Rightarrow> int \<Rightarrow> int \<Rightarrow> error + page" where
  "clone_click pg pr now rnd =
     (case clone_type pr of
        None \<Rightarrow> Inr pg
      | Some type \<Rightarrow>
          (case ProductFactory_create (registry pg) type now rnd (cloneData pr) of
             Inl e \<Rightarrow> Inl e
           | Inr newProd \<Rightarrow> Inr (addProductToUI (pg\<lparr>created := created pg @ [newProd]\<rparr>) newProd)))"

subsection \<open>The remove button of an item, and the clear button\<close>

text \<open>\<open>Array.prototype.findIndex\<close>, with \<open>None\<close> for \<open>-1\<close>.\<close>

fun findIndex :: "('a \<Rightarrow> bool) \<Rightarrow> 'a list \<Rightarrow> nat option" where
  "findIndex P [] = None"
| "findIndex P (x # xs) = (if P x then Some 0 else map_option Suc (findIndex P xs))"

text \<open>\<open>xs.splice(idx, 1)\<close>, and likewise the removal of one list item from its parent.\<close>

definition splice_one :: "nat \<Rightarrow> 'a list \<Rightarrow> 'a list" where
  "splice_one idx xs = take idx xs @ drop (Suc idx) xs"

text \<open>
  The click handler of the remove button of the item that stands at position \<open>li\<close> of
  the list and was rendered for \<open>pr\<close>: the first product of \<open>created\<close> with the
  identifier of \<open>pr\<close> is removed, and with it that item.
\<close>

definition remove_click :: "page \<Rightarrow> nat \<Rightarrow> product \<Rightarrow> page" where
  "remove_click pg li pr =
     (case findIndex (\<lambda>p. id_field p = id_field pr) (created pg) of
        None \<Rightarrow> pg
      | Some idx \<Rightarrow>
          pg\<lparr>created := splice_one idx (created pg),
             productList := splice_one li (productList pg)\<rparr>)"

definition clearBtn_click :: "page \<Rightarrow> page" where
  "clearBtn_click pg = pg\<lparr>created := [], productList := []\<rparr>"

section \<open>Properties of values named by the specification\<close>

text \<open>A finite Number that is not negative.\<close>

fun is_finite_nonneg :: "jsnum \<Rightarrow> bool" where
  "is_finite_nonneg (Fin x) = (0 \<le> x)"
| "is_finite_nonneg _ = False"

text \<open>A value that is a Number, finite, not negative and integral.\<close>

fun is_nonneg_integer :: "jsval \<Rightarrow> bool" where
  "is_nonneg_integer (Num (Fin x)) = (0 \<le> x \<and> of_int \<lfloor>x\<rfloor> = x)"
| "is_nonneg_integer _ = False"

section \<open>The registry: lookup, registration, removal\<close>

lemma map_get_map_set: "map_get (map_set m k v) k' = (if k' = k then Some v else map_get m k')"
  by (induction m) (auto simp: map_get_def)

lemma map_get_map_delete:
  "map_get (map_delete m k) k' = (if k' = k then None else map_get m k')"
  by (induction m) (auto simp: map_get_def map_delete_def)

lemma map_get_None_iff: "map_get m k = None \<longleftrightarrow> k \<notin> set (map_keys m)"
  by (simp add: map_get_def map_keys_def map_of_eq_None_iff)

lemma map_delete_absent: "k \<notin> set (map_keys m) \<Longrightarrow> map_delete m k = m"
  by (induction m) (auto simp: map_delete_def map_keys_def)

lemma map_keys_map_set:
  "map_keys (map_set m k v) = (if k \<in> set (map_keys m) then map_keys m else map_keys m @ [k])"
  by (induction m) (force simp: map_keys_def)+

lemma initial_registry_eq:
  "initial_registry =
     [(''electronics'', ElectronicsCreator), (''clothing'', ClothingCreator),
      (''book'', BookCreator)]"
  by (simp add: initial_registry_def)

lemma unregistered_not_must_override:
  "unregistered_message type \<noteq> ''factoryMethod() must be implemented by subclasses''"
  by (simp add: unregistered_message_def)

text \<open>
  C2. For a tag that the registry does not map, \<open>create\<close> throws an \<open>Error\<close> whose
  message is \<open>No creator registered for type "tag"\<close>, whatever the data. Nothing is
  changed by the failure: the create button, with that tag selected, only alerts the
  message and leaves the page, with the registry, the array \<open>created\<close> and the list, as
  it was; the clone button lets the error out before storing anything.
\<close>

theorem create_unregistered_fails:
  assumes "type \<notin> set (ProductFactory_availableTypes (registry pg))"
  shows "ProductFactory_create (registry pg) type now rnd data
           = Inl (Error (''No creator registered for type '' @ [CHR 0x22] @ type @ [CHR 0x22]))
         \<and> createBtn_click (pg\<lparr>productType := type\<rparr>) now rnd
             = pg\<lparr>productType := type,
                  alerts := alerts pg
                    @ [''No creator registered for type '' @ [CHR 0x22] @ type @ [CHR 0x22]]\<rparr>
         \<and> registry (createBtn_click (pg\<lparr>productType := type\<rparr>) now rnd) = registry pg
         \<and> created (createBtn_click (pg\<lparr>productType := type\<rparr>) now rnd) = created pg
         \<and> productList (createBtn_click (pg\<lparr>productType := type\<rparr>) now rnd) = productList pg
         \<and> (clone_type pr = Some type \<longrightarrow>
              clone_click pg pr now rnd
                = Inl (Error (''No creator registered for type '' @ [CHR 0x22] @ type @ [CHR 0x22])))"
proof -
  from assms have none: "map_get (registry pg) type = None"
    by (simp add: map_get_None_iff ProductFactory_availableTypes_def)
  then have fails: "\<And>d. ProductFactory_create (registry pg) type now rnd d
      = Inl (Error (unregistered_message type))"
    by (simp add: ProductFactory_create_def)
  show ?thesis
    using fails by (simp add: createBtn_click_def clone_click_def unregistered_message_def)
qed

theorem create_unregistered_fails_witness:
  "''book'' \<notin> set (ProductFactory_availableTypes
       (registry \<lparr>registry = ProductFactory_unregister initial_registry ''book'', created = [],
          productList = [], productType = ''book'', nameInput = ''Dune'', priceInput = ''3'',
          typeFields = [], alerts = []\<rparr>))
   \<and> ProductFactory_create (ProductFactory_unregister initial_registry ''book'') ''book'' 5 6
       [(''name'', Str ''Dune'')]
     = Inl (Error ''No creator registered for type \"book\"'')
   \<and> created (createBtn_click
        \<lparr>registry = ProductFactory_unregister initial_registry ''book'', created = [],
         productList = [], productType = ''book'', nameInput = ''Dune'', priceInput = ''3'',
         typeFields = [], alerts = []\<rparr> 5 6) = []
   \<and> alerts (createBtn_click
        \<lparr>registry = ProductFactory_unregister initial_registry ''book'', created = [],
         productList = [], productType = ''book'', nameInput = ''Dune'', priceInput = ''3'',
         typeFields = [], alerts = []\<rparr> 5 6)
     = [''No creator registered for type \"book\"'']
   \<and> clone_type (BookProduct (Str ''Dune'') (Fin 3) ''p_1_2'' (Str ''Unknown'') (Num (Fin 0)))
     = Some ''book''
   \<and> clone_click
        \<lparr>registry = ProductFactory_unregister initial_registry ''book'', created = [],
         productList = [], productType = ''book'', nameInput = ''Dune'', priceInput = ''3'',
         typeFields = [], alerts = []\<rparr>
        (BookProduct (Str ''Dune'') (Fin 3) ''p_1_2'' (Str ''Unknown'') (Num (Fin 0))) 5 6
     = Inl (Error ''No creator registered for type \"book\"'')"
  using create_unregistered_fails
    [of "''book''"
        "\<lparr>registry = ProductFactory_unregister initial_registry ''book'', created = [],
          productList = [], productType = ''book'', nameInput = ''Dune'', priceInput = ''3'',
          typeFields = [], alerts = []\<rparr>"
        5 6 "[(''name'', Str ''Dune'')]"
        "BookProduct (Str ''Dune'') (Fin 3) ''p_1_2'' (Str ''Unknown'') (Num (Fin 0))"]
  by (simp add: initial_registry_eq ProductFactory_unregister_def map_delete_def
      ProductFactory_availableTypes_def map_keys_def)

text \<open>
  C3. After \<open>register(t, c)\<close>, \<open>create(t, d)\<close> gives exactly what \<open>c.create(d)\<close> gives,
  also when \<open>t\<close> had another creator before, and the tag is listed once: where it stood
  if it was mapped, at the end otherwise. After \<open>unregister(t)\<close>, \<open>create(t, d)\<close> throws
  the unregistered-type error; and \<open>unregister(t)\<close> of a tag that is not mapped leaves the
  registry as it was.
\<close>

theorem register_create_unregister:
  "ProductFactory_create (ProductFactory_register reg t c) t now rnd d
     = creator_create c now rnd d
   \<and> ProductFactory_create
       (ProductFactory_register (ProductFactory_register reg t c0) t c) t now rnd d
     = creator_create c now rnd d
   \<and> ProductFactory_availableTypes (ProductFactory_register reg t c)
     = (if t \<in> set (ProductFactory_availableTypes reg) then ProductFactory_availableTypes reg
        else ProductFactory_availableTypes reg @ [t])
   \<and> ProductFactory_create (ProductFactory_unregister reg t) t now rnd d
     = Inl (Error (''No creator registered for type '' @ [CHR 0x22] @ t @ [CHR 0x22]))
   \<and> (t \<notin> set (ProductFactory_availableTypes reg) \<longrightarrow> ProductFactory_unregister reg t = reg)"
  by (simp add: ProductFactory_create_def ProductFactory_register_def
      ProductFactory_unregister_def ProductFactory_availableTypes_def
      map_get_map_set map_get_map_delete map_delete_absent map_keys_map_set
      unregistered_message_def)

theorem register_create_unregister_witness:
  "''widget'' \<notin> set (ProductFactory_availableTypes initial_registry)
   \<and> ProductFactory_unregister initial_registry ''widget'' = initial_registry
   \<and> ProductFactory_create (ProductFactory_register initial_registry ''widget'' BookCreator)
       ''widget'' 5 6 [] = creator_create BookCreator 5 6 []"
  using register_create_unregister [of initial_registry "''widget''" BookCreator 5 6 "[]"]
  by (simp add: initial_registry_eq ProductFactory_availableTypes_def map_keys_def)

text \<open>
  C4. In the registry as built at startup, each of the tags \<open>electronics\<close>, \<open>clothing\<close>
  and \<open>book\<close> creates, from any data, an instance of \<open>ElectronicsProduct\<close>,
  \<open>ClothingProduct\<close> and \<open>BookProduct\<close> respectively, and \<open>availableTypes()\<close> lists
  the tag.
\<close>

theorem builtin_tags_create_their_variant:
  "ProductFactory_create initial_registry ''electronics'' now rnd data
     = Inr (new_ElectronicsProduct now rnd data)
   \<and> (\<exists>n p i b w. new_ElectronicsProduct now rnd data = ElectronicsProduct n p i b w)
   \<and> ''electronics'' \<in> set (ProductFactory_availableTypes initial_registry)
   \<and> ProductFactory_create initial_registry ''clothing'' now rnd data
     = Inr (new_ClothingProduct now rnd data)
   \<and> (\<exists>n p i s m. new_ClothingProduct now rnd data = ClothingProduct n p i s m)
   \<and> ''clothing'' \<in> set (ProductFactory_availableTypes initial_registry)
   \<and> ProductFactory_create initial_registry ''book'' now rnd data
     = Inr (new_BookProduct now rnd data)
   \<and> (\<exists>n p i a pg. new_BookProduct now rnd data = BookProduct n p i a pg)
   \<and> ''book'' \<in> set (ProductFactory_availableTypes initial_registry)"
  by (simp add: initial_registry_eq ProductFactory_create_def map_get_def creator_create_def
      ProductFactory_availableTypes_def map_keys_def
      new_ElectronicsProduct_def new_ClothingProduct_def new_BookProduct_def Let_def)

text \<open>
  C9. The creation step of the base creator throws the must-override error, directly
  and through \<open>create\<close>. When no tag of the registry maps to the base creator,
  \<open>create\<close> of the registry never throws that error, whatever the tag and the data.
\<close>

theorem must_override_unreachable:
  "factoryMethod ProductCreator now rnd data
     = Inl (Error ''factoryMethod() must be implemented by subclasses'')
   \<and> creator_create ProductCreator now rnd data
     = Inl (Error ''factoryMethod() must be implemented by subclasses'')
   \<and> (ProductCreator \<notin> snd ` set reg \<longrightarrow>
        ProductFactory_create reg type now rnd data
          \<noteq> Inl (Error ''factoryMethod() must be implemented by subclasses''))"
proof -
  have "ProductFactory_create reg type now rnd data
          \<noteq> Inl (Error ''factoryMethod() must be implemented by subclasses'')"
    if conc: "ProductCreator \<notin> snd ` set reg"
  proof (cases "map_get reg type")
    case None
    then show ?thesis
      using unregistered_not_must_override [of type] by (simp add: ProductFactory_create_def)
  next
    case (Some c)
    then have "c \<in> snd ` set reg"
      by (auto simp: map_get_def dest!: map_of_SomeD intro: rev_image_eqI)
    with conc have "c \<noteq> ProductCreator" by blast
    with Some show ?thesis
      by (cases c) (simp_all add: ProductFactory_create_def creator_create_def)
  qed
  then show ?thesis by (simp add: creator_create_def)
qed

theorem must_override_unreachable_witness:
  "ProductCreator \<notin> snd ` set initial_registry
   \<and> ProductFactory_create initial_registry ''book'' 5 6 []
       \<noteq> Inl (Error ''factoryMethod() must be implemented by subclasses'')
   \<and> ProductFactory_create initial_registry ''toy'' 5 6 []
       \<noteq> Inl (Error ''factoryMethod() must be implemented by subclasses'')"
  using must_override_unreachable [of 5 6 "[]" initial_registry "''book''"]
    must_override_unreachable [of 5 6 "[]" initial_registry "''toy''"]
  by (simp add: initial_registry_eq)

text \<open>
  C10. At startup \<open>availableTypes()\<close> is \<open>electronics\<close>, \<open>clothing\<close>, \<open>book\<close>, in
  this order; \<open>create\<close> with the tag \<open>generic\<close> throws the unregistered-type error for
  any data; and no tag at all yields an instance of the base class \<open>Product\<close>.
\<close>

theorem startup_registry:
  "ProductFactory_availableTypes initial_registry = [''electronics'', ''clothing'', ''book'']
   \<and> ProductFactory_create initial_registry ''generic'' now rnd data
     = Inl (Error ''No creator registered for type \"generic\"'')
   \<and> ProductFactory_create initial_registry type now rnd data \<noteq> Inr (Product n p i)"
  by (simp add: initial_registry_eq ProductFactory_availableTypes_def map_keys_def
      ProductFactory_create_def map_get_def unregistered_message_def creator_create_def
      new_ElectronicsProduct_def new_ClothingProduct_def new_BookProduct_def Let_def)

section \<open>Prices\<close>

lemma parseFloat_undefined: "parseFloat_str ''undefined'' = NaN"
  by code_simp

lemma parseFloat_bad: "parseFloat_str ''bad'' = NaN"
  by code_simp

lemma price_or_zero_eq:
  "price_or_zero v = (if parseFloat v = NaN then Fin 0 else parseFloat v)"
  by (cases "parseFloat v") (auto simp: price_or_zero_def Let_def)

lemma get_prop_super_fields:
  "get_prop (super_fields data) ''name'' = get_prop data ''name''"
  "get_prop (super_fields data) ''price'' = get_prop data ''price''"
  by (simp_all add: super_fields_def get_prop_def)

lemma get_prop_missing: "map_of data k = None \<Longrightarrow> get_prop data k = Undefined"
  by (simp add: get_prop_def)

lemma price_new:
  "price (new_Product now rnd data) = price_or_zero (get_prop data ''price'')"
  "price (new_ElectronicsProduct now rnd data) = price_or_zero (get_prop data ''price'')"
  "price (new_ClothingProduct now rnd data) = price_or_zero (get_prop data ''price'')"
  "price (new_BookProduct now rnd data) = price_or_zero (get_prop data ''price'')"
  by (simp_all add: new_Product_def new_ElectronicsProduct_def new_ClothingProduct_def
      new_BookProduct_def Let_def get_prop_super_fields)

lemma factoryMethod_price:
  "factoryMethod c now rnd data = Inr p \<Longrightarrow> price p = price_or_zero (get_prop data ''price'')"
  by (cases c) (auto simp: price_new)

text \<open>
  C1 (amended). The price of a product built from any raw data record, by the base
  constructor, by any of the three subclass constructors or by \<open>create\<close> of the
  registry, is a Number that is never NaN: it is 0 when the \<open>price\<close> field is missing or
  \<open>parseFloat\<close> finds no number in it, and otherwise it is the very number that
  \<open>parseFloat\<close> reads, with no check that it is finite or not negative.
\<close>

theorem price_after_construction:
  assumes "p \<in> set [new_Product now rnd data, new_ElectronicsProduct now rnd data,
                     new_ClothingProduct now rnd data, new_BookProduct now rnd data]
           \<or> ProductFactory_create reg type now rnd data = Inr p"
  shows "price p \<noteq> NaN
         \<and> (map_of data ''price'' = None \<longrightarrow> price p = Fin 0)
         \<and> (parseFloat (get_prop data ''price'') = NaN \<longrightarrow> price p = Fin 0)
         \<and> (parseFloat (get_prop data ''price'') \<noteq> NaN \<longrightarrow>
              price p = parseFloat (get_prop data ''price''))"
proof -
  have "price p = price_or_zero (get_prop data ''price'')"
    using assms
    by (auto simp: price_new ProductFactory_create_def creator_create_def
        dest: factoryMethod_price split: option.splits)
  then show ?thesis
    by (simp add: price_or_zero_eq get_prop_missing parseFloat_undefined)
qed

theorem price_after_construction_witness:
  "ProductFactory_create initial_registry ''electronics'' 5 6
      [(''name'', Str ''Fan''), (''brand'', Str ''Acme'')]
     = Inr (ElectronicsProduct (Str ''Fan'') (Fin 0) ''p_5_6'' (Str ''Acme'') (Num (Fin 1)))
   \<and> map_of [(''name'', Str ''Fan''), (''brand'', Str ''Acme'')] ''price'' = None
   \<and> parseFloat (get_prop [(''name'', Str ''Fan''), (''brand'', Str ''Acme'')] ''price'') = NaN
   \<and> price (ElectronicsProduct (Str ''Fan'') (Fin 0) ''p_5_6'' (Str ''Acme'') (Num (Fin 1)))
       = Fin 0
   \<and> new_BookProduct 5 6 [(''name'', Str ''Dune''), (''price'', Str ''-5'')]
       \<in> set [new_Product 5 6 [(''name'', Str ''Dune''), (''price'', Str ''-5'')],
               new_ElectronicsProduct 5 6 [(''name'', Str ''Dune''), (''price'', Str ''-5'')],
               new_ClothingProduct 5 6 [(''name'', Str ''Dune''), (''price'', Str ''-5'')],
               new_BookProduct 5 6 [(''name'', Str ''Dune''), (''price'', Str ''-5'')]]
   \<and> parseFloat (get_prop [(''name'', Str ''Dune''), (''price'', Str ''-5'')] ''price'') \<noteq> NaN
   \<and> price (new_BookProduct 5 6 [(''name'', Str ''Dune''), (''price'', Str ''-5'')])
       = Fin (- 5)"
proof -
  have made: "ProductFactory_create initial_registry ''electronics'' 5 6
      [(''name'', Str ''Fan''), (''brand'', Str ''Acme'')]
     = Inr (ElectronicsProduct (Str ''Fan'') (Fin 0) ''p_5_6'' (Str ''Acme'') (Num (Fin 1)))"
    by code_simp
  have unparsed:
    "parseFloat (get_prop [(''name'', Str ''Fan''), (''brand'', Str ''Acme'')] ''price'') = NaN"
    by code_simp
  have parsed:
    "parseFloat (get_prop [(''name'', Str ''Dune''), (''price'', Str ''-5'')] ''price'')
       = Fin (- 5)"
    by code_simp
  have mem: "new_BookProduct 5 6 [(''name'', Str ''Dune''), (''price'', Str ''-5'')]
       \<in> set [new_Product 5 6 [(''name'', Str ''Dune''), (''price'', Str ''-5'')],
               new_ElectronicsProduct 5 6 [(''name'', Str ''Dune''), (''price'', Str ''-5'')],
               new_ClothingProduct 5 6 [(''name'', Str ''Dune''), (''price'', Str ''-5'')],
               new_BookProduct 5 6 [(''name'', Str ''Dune''), (''price'', Str ''-5'')]]"
    by simp
  from price_after_construction [OF disjI2, OF made]
    price_after_construction [OF disjI1, OF mem] unparsed parsed made mem
  show ?thesis
    by simp
qed

text \<open>
  C1 fails as stated: the price text \<open>-5\<close> gives a product whose price is \<open>-5\<close>, which
  is not a finite non-negative number.
\<close>

theorem price_negative_counterexample:
  "ProductFactory_create initial_registry ''electronics'' 5 6
      [(''name'', Str ''Fan''), (''price'', Str ''-5'')]
     = Inr (ElectronicsProduct (Str ''Fan'') (Fin (- 5)) ''p_5_6'' (Str ''Unknown'') (Num (Fin 1)))
   \<and> \<not> is_finite_nonneg
         (price (ElectronicsProduct (Str ''Fan'') (Fin (- 5)) ''p_5_6'' (Str ''Unknown'')
            (Num (Fin 1))))"
  by code_simp

section \<open>Fields of the subclasses\<close>

lemma js_or_truthy: "truthy a \<Longrightarrow> js_or a b = a"
  by (simp add: js_or_def)

lemma js_or_missing: "map_of data k = None \<Longrightarrow> js_or (get_prop data k) b = b"
  by (simp add: js_or_def get_prop_def)

text \<open>
  C7 (amended). The \<open>ElectronicsProduct\<close> built from a raw data record has the given
  \<open>brand\<close> whenever that value is truthy (a non-empty string is), and \<open>Unknown\<close> when the
  field is missing; it has the given \<open>warrantyYears\<close> whenever that value is truthy,
  whatever it is (nothing checks that it is a non-negative integer), and 1 when the field
  is missing. Creating \<open>electronics\<close> from name \<open>Fan\<close>, price \<open>bad\<close> and brand
  \<open>Acme\<close> gives price 0 and \<open>warrantyYears\<close> 1.
\<close>

theorem electronics_fields:
  "(truthy (get_prop data ''brand'') \<longrightarrow>
      brand (new_ElectronicsProduct now rnd data) = get_prop data ''brand'')
   \<and> (map_of data ''brand'' = None \<longrightarrow>
      brand (new_ElectronicsProduct now rnd data) = Str ''Unknown'')
   \<and> (truthy (get_prop data ''warrantyYears'') \<longrightarrow>
      warrantyYears (new_ElectronicsProduct now rnd data) = get_prop data ''warrantyYears'')
   \<and> (map_of data ''warrantyYears'' = None \<longrightarrow>
      warrantyYears (new_ElectronicsProduct now rnd data) = Num (Fin 1))
   \<and> ProductFactory_create initial_registry ''electronics'' now rnd
        [(''name'', Str ''Fan''), (''price'', Str ''bad''), (''brand'', Str ''Acme'')]
      = Inr (ElectronicsProduct (Str ''Fan'') (Fin 0) (new_id now rnd) (Str ''Acme'')
          (Num (Fin 1)))"
proof -
  have "ProductFactory_create initial_registry ''electronics'' now rnd
        [(''name'', Str ''Fan''), (''price'', Str ''bad''), (''brand'', Str ''Acme'')]
      = Inr (ElectronicsProduct (Str ''Fan'') (Fin 0) (new_id now rnd) (Str ''Acme'')
          (Num (Fin 1)))"
    by (simp add: initial_registry_eq ProductFactory_create_def map_get_def
        creator_create_def new_ElectronicsProduct_def new_Product_def super_fields_def
        get_prop_def js_or_def price_or_zero_def parseFloat_bad Let_def)
  then show ?thesis
    by (simp add: new_ElectronicsProduct_def Let_def js_or_truthy js_or_missing)
qed

theorem electronics_fields_witness:
  "truthy (get_prop [(''brand'', Str ''Acme''), (''warrantyYears'', Num (Fin 3))] ''brand'')
   \<and> brand (new_ElectronicsProduct 5 6
        [(''brand'', Str ''Acme''), (''warrantyYears'', Num (Fin 3))]) = Str ''Acme''
   \<and> truthy (get_prop [(''brand'', Str ''Acme''), (''warrantyYears'', Num (Fin 3))]
        ''warrantyYears'')
   \<and> warrantyYears (new_ElectronicsProduct 5 6
        [(''brand'', Str ''Acme''), (''warrantyYears'', Num (Fin 3))]) = Num (Fin 3)
   \<and> map_of [(''name'', Str ''Fan'')] ''brand'' = None
   \<and> brand (new_ElectronicsProduct 5 6 [(''name'', Str ''Fan'')]) = Str ''Unknown''
   \<and> map_of [(''name'', Str ''Fan'')] ''warrantyYears'' = None
   \<and> warrantyYears (new_ElectronicsProduct 5 6 [(''name'', Str ''Fan'')]) = Num (Fin 1)"
  using electronics_fields [of "[(''brand'', Str ''Acme''), (''warrantyYears'', Num (Fin 3))]" 5 6]
    electronics_fields [of "[(''name'', Str ''Fan'')]" 5 6]
  by (simp add: get_prop_def)

text \<open>
  C7 fails as stated: a \<open>warrantyYears\<close> of \<open>-3\<close> is stored as it is, and is not a
  non-negative integer.
\<close>

theorem warranty_negative_counterexample:
  "ProductFactory_create initial_registry ''electronics'' 5 6
      [(''name'', Str ''Fan''), (''price'', Num (Fin 10)), (''brand'', Str ''Acme''),
       (''warrantyYears'', Num (Fin (- 3)))]
     = Inr (ElectronicsProduct (Str ''Fan'') (Fin 10) ''p_5_6'' (Str ''Acme'') (Num (Fin (- 3))))
   \<and> \<not> is_nonneg_integer
         (warrantyYears (ElectronicsProduct (Str ''Fan'') (Fin 10) ''p_5_6'' (Str ''Acme'')
            (Num (Fin (- 3)))))"
  by code_simp

text \<open>
  C8 (amended). The \<open>ClothingProduct\<close> built from a raw data record has the given \<open>size\<close>
  whenever that value is truthy, whatever it is (nothing restricts it to S, M, L and XL),
  and \<open>M\<close> when the field is missing; it has the given \<open>material\<close> whenever that value is
  truthy, and \<open>Unknown\<close> when the field is missing.
\<close>

theorem clothing_fields:
  "(truthy (get_prop data ''size'') \<longrightarrow>
      size_field (new_ClothingProduct now rnd data) = get_prop data ''size'')
   \<and> (map_of data ''size'' = None \<longrightarrow>
      size_field (new_ClothingProduct now rnd data) = Str ''M'')
   \<and> (truthy (get_prop data ''material'') \<longrightarrow>
      material (new_ClothingProduct now rnd data) = get_prop data ''material'')
   \<and> (map_of data ''material'' = None \<longrightarrow>
      material (new_ClothingProduct now rnd data) = Str ''Unknown'')"
  by (simp add: new_ClothingProduct_def Let_def js_or_truthy js_or_missing)

theorem clothing_fields_witness:
  "truthy (get_prop [(''size'', Str ''L''), (''material'', Str ''Wool'')] ''size'')
   \<and> size_field (new_ClothingProduct 5 6 [(''size'', Str ''L''), (''material'', Str ''Wool'')])
       = Str ''L''
   \<and> truthy (get_prop [(''size'', Str ''L''), (''material'', Str ''Wool'')] ''material'')
   \<and> material (new_ClothingProduct 5 6 [(''size'', Str ''L''), (''material'', Str ''Wool'')])
       = Str ''Wool''
   \<and> map_of [(''name'', Str ''Scarf'')] ''size'' = None
   \<and> size_field (new_ClothingProduct 5 6 [(''name'', Str ''Scarf'')]) = Str ''M''
   \<and> map_of [(''name'', Str ''Scarf'')] ''material'' = None
   \<and> material (new_ClothingProduct 5 6 [(''name'', Str ''Scarf'')]) = Str ''Unknown''"
  using clothing_fields [of "[(''size'', Str ''L''), (''material'', Str ''Wool'')]" 5 6]
    clothing_fields [of "[(''name'', Str ''Scarf'')]" 5 6]
  by (simp add: get_prop_def)

text \<open>
  C8 fails as stated: the size \<open>XXL\<close> is stored as it is, and is none of S, M, L and XL.
\<close>

theorem size_unrestricted_counterexample:
  "ProductFactory_create initial_registry ''clothing'' 5 6
      [(''name'', Str ''Coat''), (''price'', Num (Fin 10)), (''size'', Str ''XXL'')]
     = Inr (ClothingProduct (Str ''Coat'') (Fin 10) ''p_5_6'' (Str ''XXL'') (Str ''Unknown''))
   \<and> size_field (ClothingProduct (Str ''Coat'') (Fin 10) ''p_5_6'' (Str ''XXL'') (Str ''Unknown''))
       \<notin> set [Str ''S'', Str ''M'', Str ''L'', Str ''XL'']"
  by code_simp


section \<open>Identifiers\<close>

lemma digit_cases: "0 \<le> d \<Longrightarrow> d < 10 \<Longrightarrow> d \<in> {0, 1, 2, 3, 4, 5, 6, 7, 8, 9 :: int}"
  by (simp, arith)

lemma digit_char_props:
  assumes "0 \<le> d" "d < 10"
  shows "digit_val (digit_char d) = d" and "is_digit (digit_char d)"
  using digit_cases [OF assms]
  by (auto simp: digit_char_def digit_val_def is_digit_def)

lemma digits_value_snoc: "digits_value (ds @ [c]) = 10 * digits_value ds + digit_val c"
  by (simp add: digits_value_def)

lemma digits_value_digits: "0 \<le> n \<Longrightarrow> digits_value (digits n) = n"
proof (induction n rule: digits.induct)
  case (1 n)
  show ?case
  proof (cases "n < 10")
    case True
    with "1.prems" show ?thesis
      by (subst digits.simps) (simp add: digits_value_def digit_char_props)
  next
    case False
    with "1.prems" have "digits_value (digits (n div 10)) = n div 10"
      by (intro "1.IH") auto
    with False show ?thesis
      by (subst digits.simps) (simp add: digits_value_snoc digit_char_props)
  qed
qed

lemma digits_all_digits: "0 \<le> n \<Longrightarrow> c \<in> set (digits n) \<Longrightarrow> is_digit c"
proof (induction n rule: digits.induct)
  case (1 n)
  show ?case
  proof (cases "n < 10")
    case True
    with "1.prems" show ?thesis
      by (subst (asm) digits.simps) (simp add: digit_char_props)
  next
    case False
    with "1.prems"(2) have "c \<in> set (digits (n div 10)) \<or> c = digit_char (n mod 10)"
      by (subst (asm) digits.simps) auto
    with False "1.prems"(1) "1.IH" show ?thesis
      by (auto simp: digit_char_props)
  qed
qed

lemma digits_nonempty: "digits n \<noteq> []"
  by (subst digits.simps) simp

lemma int_to_string_chars:
  "c \<in> set (int_to_string n) \<Longrightarrow> c = CHR ''-'' \<or> is_digit c"
  using digits_all_digits [of "- n" c] digits_all_digits [of n c]
  by (auto simp: int_to_string_def split: if_splits)

lemma int_to_string_inj: "int_to_string m = int_to_string n \<Longrightarrow> m = n"
proof -
  assume eq: "int_to_string m = int_to_string n"
  have hd_digit: "hd (digits k) \<noteq> CHR ''-''" if "0 \<le> k" for k
  proof -
    have "hd (digits k) \<in> set (digits k)" by (simp add: digits_nonempty)
    with that have "is_digit (hd (digits k))" by (rule digits_all_digits)
    then show ?thesis by (auto simp: is_digit_def)
  qed
  consider "m < 0" "n < 0" | "0 \<le> m" "0 \<le> n" | "m < 0" "0 \<le> n" | "0 \<le> m" "n < 0"
    by linarith
  then show "m = n"
  proof cases
    case 1
    with eq have "digits (- m) = digits (- n)" by (simp add: int_to_string_def)
    then have "digits_value (digits (- m)) = digits_value (digits (- n))" by simp
    with 1 show ?thesis by (simp add: digits_value_digits)
  next
    case 2
    with eq have "digits m = digits n" by (simp add: int_to_string_def)
    then have "digits_value (digits m) = digits_value (digits n)" by simp
    with 2 show ?thesis by (simp add: digits_value_digits)
  next
    case 3
    with eq have "CHR ''-'' # digits (- m) = digits n" by (simp add: int_to_string_def)
    then have "hd (digits n) = CHR ''-''" by (metis list.sel(1))
    with hd_digit [of n] 3 show ?thesis by simp
  next
    case 4
    with eq have "digits m = CHR ''-'' # digits (- n)" by (simp add: int_to_string_def)
    then have "hd (digits m) = CHR ''-''" by simp
    with hd_digit [of m] 4 show ?thesis by simp
  qed
qed

lemma new_id_eq_iff: "new_id now rnd = new_id now' rnd' \<longleftrightarrow> now = now' \<and> rnd = rnd'"
proof
  assume eq: "new_id now rnd = new_id now' rnd'"
  have sep: "CHR ''_'' \<notin> set (int_to_string k)" for k
    using int_to_string_chars [of "CHR ''_''" k] by (auto simp: is_digit_def)
  from eq have "int_to_string now @ CHR ''_'' # int_to_string rnd
      = int_to_string now' @ CHR ''_'' # int_to_string rnd'"
    by (simp add: new_id_def)
  with sep have "int_to_string now = int_to_string now' \<and> int_to_string rnd = int_to_string rnd'"
    by (simp add: append_Cons_eq_iff)
  then show "now = now' \<and> rnd = rnd'"
    by (auto dest: int_to_string_inj)
qed simp

section \<open>Cloning\<close>

lemma js_or_idem: "js_or (js_or a b) b = js_or a b"
  by (simp add: js_or_def)

lemma price_or_zero_idem: "price_or_zero (Num (price_or_zero v)) = price_or_zero v"
  by (cases "parseFloat v") (auto simp: price_or_zero_def Let_def)

lemma clone_of_electronics:
  "new_ElectronicsProduct now' rnd' (cloneData (new_ElectronicsProduct now rnd data))
   = ElectronicsProduct
       (Str (to_string (get_prop data ''name'') @ '' (clone)''))
       (price (new_ElectronicsProduct now rnd data)) (new_id now' rnd')
       (brand (new_ElectronicsProduct now rnd data))
       (warrantyYears (new_ElectronicsProduct now rnd data))"
  by (simp add: new_ElectronicsProduct_def new_Product_def cloneData_def object_assign_def
      super_fields_def get_prop_def Let_def js_or_idem price_or_zero_idem)

lemma clone_of_clothing:
  "new_ClothingProduct now' rnd' (cloneData (new_ClothingProduct now rnd data))
   = ClothingProduct
       (Str (to_string (get_prop data ''name'') @ '' (clone)''))
       (price (new_ClothingProduct now rnd data)) (new_id now' rnd')
       (size_field (new_ClothingProduct now rnd data))
       (material (new_ClothingProduct now rnd data))"
  by (simp add: new_ClothingProduct_def new_Product_def cloneData_def object_assign_def
      super_fields_def get_prop_def Let_def js_or_idem price_or_zero_idem)

lemma clone_of_book:
  "new_BookProduct now' rnd' (cloneData (new_BookProduct now rnd data))
   = BookProduct
       (Str (to_string (get_prop data ''name'') @ '' (clone)''))
       (price (new_BookProduct now rnd data)) (new_id now' rnd')
       (author (new_BookProduct now rnd data))
       (pages (new_BookProduct now rnd data))"
  by (simp add: new_BookProduct_def new_Product_def cloneData_def object_assign_def
      super_fields_def get_prop_def Let_def js_or_idem price_or_zero_idem)

lemma initial_create_cases:
  assumes "ProductFactory_create initial_registry type now rnd data = Inr pr"
  shows "type = ''electronics'' \<and> pr = new_ElectronicsProduct now rnd data
         \<or> type = ''clothing'' \<and> pr = new_ClothingProduct now rnd data
         \<or> type = ''book'' \<and> pr = new_BookProduct now rnd data"
  using assms
  by (auto simp: initial_registry_eq ProductFactory_create_def map_get_def creator_create_def
      unregistered_message_def split: if_splits)

lemma initial_create:
  "ProductFactory_create initial_registry ''electronics'' now rnd data
     = Inr (new_ElectronicsProduct now rnd data)"
  "ProductFactory_create initial_registry ''clothing'' now rnd data
     = Inr (new_ClothingProduct now rnd data)"
  "ProductFactory_create initial_registry ''book'' now rnd data
     = Inr (new_BookProduct now rnd data)"
  by (simp_all add: initial_registry_eq ProductFactory_create_def map_get_def creator_create_def)

lemma new_fields:
  "name (new_ElectronicsProduct now rnd data) = get_prop data ''name''"
  "name (new_ClothingProduct now rnd data) = get_prop data ''name''"
  "name (new_BookProduct now rnd data) = get_prop data ''name''"
  "id_field (new_ElectronicsProduct now rnd data) = new_id now rnd"
  "id_field (new_ClothingProduct now rnd data) = new_id now rnd"
  "id_field (new_BookProduct now rnd data) = new_id now rnd"
  "clone_type (new_ElectronicsProduct now rnd data) = Some ''electronics''"
  "clone_type (new_ClothingProduct now rnd data) = Some ''clothing''"
  "clone_type (new_BookProduct now rnd data) = Some ''book''"
  by (simp_all add: new_ElectronicsProduct_def new_ClothingProduct_def new_BookProduct_def
      new_Product_def super_fields_def get_prop_def Let_def)

lemma new_meta:
  "meta (new_ElectronicsProduct now rnd data)
     = [(''brand'', brand (new_ElectronicsProduct now rnd data)),
        (''warrantyYears'', warrantyYears (new_ElectronicsProduct now rnd data))]"
  "meta (new_ClothingProduct now rnd data)
     = [(''size'', size_field (new_ClothingProduct now rnd data)),
        (''material'', material (new_ClothingProduct now rnd data))]"
  "meta (new_BookProduct now rnd data)
     = [(''author'', author (new_BookProduct now rnd data)),
        (''pages'', pages (new_BookProduct now rnd data))]"
  by (simp_all add: new_ElectronicsProduct_def new_ClothingProduct_def new_BookProduct_def
      Let_def)

text \<open>
  What cloning guarantees. For a product created through the registry, on a page whose
  registry is the one built at startup, the clone button creates and stores a new product
  of the same class, with the same metadata fields and the same price, named with the
  text of the original name followed by \<open> (clone)\<close>. Its identifier is generated anew
  from the clock and the random draw of that moment: it differs from the original's
  exactly when the clock reading or the draw differs.
\<close>

theorem clone_yields_copy:
  assumes made: "ProductFactory_create initial_registry type now rnd data = Inr pr"
    and reg: "registry pg = initial_registry"
  shows "\<exists>q. clone_click pg pr now' rnd'
               = Inr (addProductToUI (pg\<lparr>created := created pg @ [q]\<rparr>) q)
           \<and> clone_type q = clone_type pr \<and> clone_type pr = Some type
           \<and> meta q = meta pr
           \<and> price q = price pr
           \<and> name q = Str (to_string (name pr) @ '' (clone)'')
           \<and> id_field pr = new_id now rnd
           \<and> id_field q = new_id now' rnd'
           \<and> (id_field q = id_field pr \<longleftrightarrow> now' = now \<and> rnd' = rnd)"
proof -
  from initial_create_cases [OF made]
  consider (electronics) "type = ''electronics''" "pr = new_ElectronicsProduct now rnd data"
    | (clothing) "type = ''clothing''" "pr = new_ClothingProduct now rnd data"
    | (book) "type = ''book''" "pr = new_BookProduct now rnd data"
    by blast
  then show ?thesis
  proof cases
    case electronics
    show ?thesis
      by (rule exI [of _ "new_ElectronicsProduct now' rnd' (cloneData pr)"])
        (simp add: electronics clone_click_def reg initial_create new_fields
          clone_of_electronics new_meta new_id_eq_iff)
  next
    case clothing
    show ?thesis
      by (rule exI [of _ "new_ClothingProduct now' rnd' (cloneData pr)"])
        (simp add: clothing clone_click_def reg initial_create new_fields
          clone_of_clothing new_meta new_id_eq_iff)
  next
    case book
    show ?thesis
      by (rule exI [of _ "new_BookProduct now' rnd' (cloneData pr)"])
        (simp add: book clone_click_def reg initial_create new_fields
          clone_of_book new_meta new_id_eq_iff)
  qed
qed

theorem clone_yields_copy_witness:
  "ProductFactory_create initial_registry ''book'' 1700000000000 42
      [(''name'', Str ''Dune''), (''price'', Str ''12.5''), (''author'', Str ''Herbert''),
       (''pages'', Num (Fin 412))]
     = Inr (BookProduct (Str ''Dune'') (Fin (25 / 2)) ''p_1700000000000_42'' (Str ''Herbert'')
            (Num (Fin 412)))
   \<and> registry
       \<lparr>registry = initial_registry,
           created = [BookProduct (Str ''Dune'') (Fin (25 / 2)) ''p_1700000000000_42''
             (Str ''Herbert'') (Num (Fin 412))],
           productList = [], productType = ''book'', nameInput = [], priceInput = [],
           typeFields = [], alerts = []\<rparr> = initial_registry
   \<and> clone_click
       \<lparr>registry = initial_registry,
           created = [BookProduct (Str ''Dune'') (Fin (25 / 2)) ''p_1700000000000_42''
             (Str ''Herbert'') (Num (Fin 412))],
           productList = [], productType = ''book'', nameInput = [], priceInput = [],
           typeFields = [], alerts = []\<rparr>
       (BookProduct (Str ''Dune'') (Fin (25 / 2)) ''p_1700000000000_42'' (Str ''Herbert'')
            (Num (Fin 412))) 1700000000900 7
     = Inr \<lparr>registry = initial_registry,
           created = [BookProduct (Str ''Dune'') (Fin (25 / 2)) ''p_1700000000000_42''
             (Str ''Herbert'') (Num (Fin 412)),
             BookProduct (Str ''Dune (clone)'') (Fin (25 / 2)) ''p_1700000000900_7''
             (Str ''Herbert'') (Num (Fin 412))],
           productList = [(''p_1700000000900_7'', li_markup (BookProduct (Str ''Dune (clone)'') (Fin (25 / 2)) ''p_1700000000900_7'' (Str ''Herbert'')
            (Num (Fin 412))))],
           productType = ''book'', nameInput = [], priceInput = [],
           typeFields = [], alerts = []\<rparr>
   \<and> id_field (BookProduct (Str ''Dune (clone)'') (Fin (25 / 2)) ''p_1700000000900_7'' (Str ''Herbert'')
            (Num (Fin 412)))
     \<noteq> id_field (BookProduct (Str ''Dune'') (Fin (25 / 2)) ''p_1700000000000_42'' (Str ''Herbert'')
            (Num (Fin 412)))"
proof -
  have made: "ProductFactory_create initial_registry ''book'' 1700000000000 42
      [(''name'', Str ''Dune''), (''price'', Str ''12.5''), (''author'', Str ''Herbert''),
       (''pages'', Num (Fin 412))]
     = Inr (BookProduct (Str ''Dune'') (Fin (25 / 2)) ''p_1700000000000_42'' (Str ''Herbert'')
            (Num (Fin 412)))"
    by code_simp
  have cloned: "clone_click
       \<lparr>registry = initial_registry,
           created = [BookProduct (Str ''Dune'') (Fin (25 / 2)) ''p_1700000000000_42''
             (Str ''Herbert'') (Num (Fin 412))],
           productList = [], productType = ''book'', nameInput = [], priceInput = [],
           typeFields = [], alerts = []\<rparr>
       (BookProduct (Str ''Dune'') (Fin (25 / 2)) ''p_1700000000000_42'' (Str ''Herbert'')
            (Num (Fin 412))) 1700000000900 7
     = Inr \<lparr>registry = initial_registry,
           created = [BookProduct (Str ''Dune'') (Fin (25 / 2)) ''p_1700000000000_42''
             (Str ''Herbert'') (Num (Fin 412)),
             BookProduct (Str ''Dune (clone)'') (Fin (25 / 2)) ''p_1700000000900_7''
             (Str ''Herbert'') (Num (Fin 412))],
           productList = [(''p_1700000000900_7'', li_markup (BookProduct (Str ''Dune (clone)'') (Fin (25 / 2)) ''p_1700000000900_7'' (Str ''Herbert'')
            (Num (Fin 412))))],
           productType = ''book'', nameInput = [], priceInput = [],
           typeFields = [], alerts = []\<rparr>"
    by code_simp
  from clone_yields_copy [OF made, of
      "\<lparr>registry = initial_registry,
           created = [BookProduct (Str ''Dune'') (Fin (25 / 2)) ''p_1700000000000_42''
             (Str ''Herbert'') (Num (Fin 412))],
           productList = [], productType = ''book'', nameInput = [], priceInput = [],
           typeFields = [], alerts = []\<rparr>" 1700000000900 7]
  obtain q where q: "clone_click
       \<lparr>registry = initial_registry,
           created = [BookProduct (Str ''Dune'') (Fin (25 / 2)) ''p_1700000000000_42''
             (Str ''Herbert'') (Num (Fin 412))],
           productList = [], productType = ''book'', nameInput = [], priceInput = [],
           typeFields = [], alerts = []\<rparr>
       (BookProduct (Str ''Dune'') (Fin (25 / 2)) ''p_1700000000000_42'' (Str ''Herbert'')
            (Num (Fin 412))) 1700000000900 7
     = Inr (addProductToUI
         (\<lparr>registry = initial_registry,
           created = [BookProduct (Str ''Dune'') (Fin (25 / 2)) ''p_1700000000000_42''
             (Str ''Herbert'') (Num (Fin 412))],
           productList = [], productType = ''book'', nameInput = [], priceInput = [],
           typeFields = [], alerts = []\<rparr>\<lparr>created :=
            [BookProduct (Str ''Dune'') (Fin (25 / 2)) ''p_1700000000000_42''
              (Str ''Herbert'') (Num (Fin 412)), q]\<rparr>) q)"
    and fresh: "id_field q \<noteq> id_field (BookProduct (Str ''Dune'') (Fin (25 / 2)) ''p_1700000000000_42'' (Str ''Herbert'')
            (Num (Fin 412)))"
    by auto
  from q cloned have same: "(BookProduct (Str ''Dune (clone)'') (Fin (25 / 2)) ''p_1700000000900_7'' (Str ''Herbert'')
            (Num (Fin 412))) = q"
    by (auto simp: addProductToUI_def)
  from fresh have "id_field (BookProduct (Str ''Dune (clone)'') (Fin (25 / 2)) ''p_1700000000900_7'' (Str ''Herbert'')
            (Num (Fin 412)))
     \<noteq> id_field (BookProduct (Str ''Dune'') (Fin (25 / 2)) ''p_1700000000000_42'' (Str ''Herbert'')
            (Num (Fin 412)))"
    unfolding same [symmetric] .
  with made cloned show ?thesis
    by simp
qed

text \<open>
  C5. The clone of a product is to have the same class, metadata and price, the name
  with \<open> (clone)\<close> appended, and an identifier different from the original's. The
  program misses the last part: a book created at clock reading 1700000000000 with draw
  42 and cloned at the same reading with the same draw gets a clone that carries the
  identifier of the original; the remove button of the clone's item, which looks the
  product up by identifier, then takes the original out of \<open>created\<close> and leaves the
  original's item in the list.
\<close>

theorem clone_same_tick_same_id:
  "createBtn_click
       \<lparr>registry = initial_registry,
        created = [],
        productList = [],
        productType = ''book'', nameInput = ''Dune'', priceInput = ''12.5'',
        typeFields = [(''author'', ''Herbert''), (''pages'', ''412'')], alerts = []\<rparr>
       1700000000000 42
     = \<lparr>registry = initial_registry,
        created = [BookProduct (Str ''Dune'') (Fin (25 / 2)) ''p_1700000000000_42'' (Str ''Herbert'')
          (Num (Fin 412))],
        productList = [(''p_1700000000000_42'', li_markup
          (BookProduct (Str ''Dune'') (Fin (25 / 2)) ''p_1700000000000_42'' (Str ''Herbert'')
          (Num (Fin 412))))],
        productType = ''book'', nameInput = [], priceInput = [],
        typeFields = [(''author'', ''Herbert''), (''pages'', ''412'')], alerts = []\<rparr>
   \<and> clone_click
       \<lparr>registry = initial_registry,
        created = [BookProduct (Str ''Dune'') (Fin (25 / 2)) ''p_1700000000000_42'' (Str ''Herbert'')
          (Num (Fin 412))],
        productList = [(''p_1700000000000_42'', li_markup
          (BookProduct (Str ''Dune'') (Fin (25 / 2)) ''p_1700000000000_42'' (Str ''Herbert'')
          (Num (Fin 412))))],
        productType = ''book'', nameInput = [], priceInput = [],
        typeFields = [(''author'', ''Herbert''), (''pages'', ''412'')], alerts = []\<rparr>
       (BookProduct (Str ''Dune'') (Fin (25 / 2)) ''p_1700000000000_42'' (Str ''Herbert'')
          (Num (Fin 412))) 1700000000000 42
     = Inr \<lparr>registry = initial_registry,
        created = [BookProduct (Str ''Dune'') (Fin (25 / 2)) ''p_1700000000000_42'' (Str ''Herbert'')
          (Num (Fin 412)),
          BookProduct (Str ''Dune (clone)'') (Fin (25 / 2)) ''p_1700000000000_42'' (Str ''Herbert'')
          (Num (Fin 412))],
        productList = [(''p_1700000000000_42'', li_markup
          (BookProduct (Str ''Dune'') (Fin (25 / 2)) ''p_1700000000000_42'' (Str ''Herbert'')
          (Num (Fin 412)))),
          (''p_1700000000000_42'', li_markup
          (BookProduct (Str ''Dune (clone)'') (Fin (25 / 2)) ''p_1700000000000_42'' (Str ''Herbert'')
          (Num (Fin 412))))],
        productType = ''book'', nameInput = [], priceInput = [],
        typeFields = [(''author'', ''Herbert''), (''pages'', ''412'')], alerts = []\<rparr>
   \<and> id_field (BookProduct (Str ''Dune (clone)'') (Fin (25 / 2)) ''p_1700000000000_42'' (Str ''Herbert'')
          (Num (Fin 412)))
     = id_field (BookProduct (Str ''Dune'') (Fin (25 / 2)) ''p_1700000000000_42'' (Str ''Herbert'')
          (Num (Fin 412)))
   \<and> remove_click
       \<lparr>registry = initial_registry,
        created = [BookProduct (Str ''Dune'') (Fin (25 / 2)) ''p_1700000000000_42'' (Str ''Herbert'')
          (Num (Fin 412)),
          BookProduct (Str ''Dune (clone)'') (Fin (25 / 2)) ''p_1700000000000_42'' (Str ''Herbert'')
          (Num (Fin 412))],
        productList = [(''p_1700000000000_42'', li_markup
          (BookProduct (Str ''Dune'') (Fin (25 / 2)) ''p_1700000000000_42'' (Str ''Herbert'')
          (Num (Fin 412)))),
          (''p_1700000000000_42'', li_markup
          (BookProduct (Str ''Dune (clone)'') (Fin (25 / 2)) ''p_1700000000000_42'' (Str ''Herbert'')
          (Num (Fin 412))))],
        productType = ''book'', nameInput = [], priceInput = [],
        typeFields = [(''author'', ''Herbert''), (''pages'', ''412'')], alerts = []\<rparr>
       1 (BookProduct (Str ''Dune (clone)'') (Fin (25 / 2)) ''p_1700000000000_42'' (Str ''Herbert'')
          (Num (Fin 412)))
     = \<lparr>registry = initial_registry,
        created = [BookProduct (Str ''Dune (clone)'') (Fin (25 / 2)) ''p_1700000000000_42'' (Str ''Herbert'')
          (Num (Fin 412))],
        productList = [(''p_1700000000000_42'', li_markup
          (BookProduct (Str ''Dune'') (Fin (25 / 2)) ''p_1700000000000_42'' (Str ''Herbert'')
          (Num (Fin 412))))],
        productType = ''book'', nameInput = [], priceInput = [],
        typeFields = [(''author'', ''Herbert''), (''pages'', ''412'')], alerts = []\<rparr>"
  by code_simp

section \<open>The book example\<close>

lemma ndigits_numeral:
  "ndigits b (numeral n) =
     (if b < 2 \<or> numeral n < b then 1 else 1 + ndigits b (numeral n div b))"
  "ndigits b 1 = (if b < 2 \<or> 1 < b then 1 else 1 + ndigits b (1 div b))"
  by (subst ndigits.simps, rule refl)+

lemma digits_numeral:
  "digits (numeral n) =
     (if (numeral n :: int) < 10 then [digit_char (numeral n)]
      else digits (numeral n div 10) @ [digit_char (numeral n mod 10)])"
  by (subst digits.simps, rule refl)

lemma floor_rat_numeral: "\<lfloor>numeral a / numeral b :: rat\<rfloor> = numeral a div numeral b"
  by (metis floor_divide_of_int_eq of_int_numeral)

lemmas round_double_unfold =
  round_double_def round_pos_def floor_log_def bpow_def round_half_even_def Let_def
  ndigits_numeral floor_rat_numeral

lemma round_double_near_412:
  "round_double 400 = Fin 400" "round_double 500 = Fin 500" "round_double 410 = Fin 410"
  "round_double 420 = Fin 420" "round_double 412 = Fin 412" "round_double 413 = Fin 413"
  by (simp_all add: round_double_unfold)

lemma floor_log_412: "floor_log 10 412 = 2"
  by (simp add: floor_log_def bpow_def ndigits_numeral)

lemma candidates_412:
  "candidates 1 412 = [(4, 3), (5, 3)]"
  "candidates 2 412 = [(41, 3), (42, 3)]"
  "candidates 3 412 = [(412, 3), (413, 3)]"
  by (simp_all add: candidates_def floor_log_412 bpow_def Let_def floor_rat_numeral)

lemma shortest_digits_412: "shortest_digits 412 = (412, 3, 3)"
  by (simp add: shortest_digits_def eval_nat_numeral candidates_412 reads_back_def
      round_double_near_412 bpow_def)

lemma pos_to_string_412: "pos_to_string 412 = ''412''"
  by (simp add: pos_to_string_def shortest_digits_412 digits_numeral digit_char_def)

lemma parseFloat_12_5: "parseFloat_str ''12.5'' = Fin (25 / 2)"
  by code_simp

lemma toFixed_12_5: "toFixed 2 (Fin (25 / 2)) = ''12.50''"
  by code_simp

text \<open>
  C6. Creating \<open>book\<close> from name \<open>Dune\<close>, price text \<open>12.5\<close>, author \<open>Herbert\<close> and
  412 pages gives a \<open>BookProduct\<close> with price 12.5 whose description is the name in
  double quotes, \<open>by Herbert\<close>, a dash, \<open>412 pages\<close>, a dash, and the rupee sign with
  \<open>12.50\<close>.
\<close>

theorem dune_example:
  "ProductFactory_create initial_registry ''book'' now rnd
      [(''name'', Str ''Dune''), (''price'', Str ''12.5''), (''author'', Str ''Herbert''),
       (''pages'', Num (Fin 412))]
     = Inr (BookProduct (Str ''Dune'') (Fin (25 / 2)) (new_id now rnd) (Str ''Herbert'')
         (Num (Fin 412)))
   \<and> price (BookProduct (Str ''Dune'') (Fin (25 / 2)) (new_id now rnd) (Str ''Herbert'')
         (Num (Fin 412))) = Fin (25 / 2)
   \<and> describe (BookProduct (Str ''Dune'') (Fin (25 / 2)) (new_id now rnd) (Str ''Herbert'')
         (Num (Fin 412)))
     = [CHR 0x22] @ ''Dune'' @ [CHR 0x22] @ '' by Herbert '' @ em_dash @ '' 412 pages ''
         @ em_dash @ '' '' @ rupee @ ''12.50''"
  by (simp add: initial_create new_BookProduct_def new_Product_def super_fields_def
      get_prop_def js_or_def price_or_zero_def Let_def parseFloat_12_5 toFixed_12_5
      pos_to_string_412)


end
